theory Spec2Isabelle
  imports Complex_Main
begin

section \<open>Strings\<close>

text \<open>
  A string of the program is a \<open>string\<close> here; one \<open>char\<close> stands for one code unit
  below 256. \<open>String.prototype.trim\<close> removes white space and line terminators from
  both ends; among the code units below 256 these are TAB, LF, VT, FF, CR, SPACE and
  NBSP.
\<close>

definition isWhiteSpace :: "char \<Rightarrow> bool" where
  "isWhiteSpace c \<longleftrightarrow>
     c \<in> set [CHR 0x09, CHR 0x0A, CHR 0x0B, CHR 0x0C, CHR 0x0D, CHR 0x20, CHR 0xA0]"

definition trim :: "string \<Rightarrow> string" where
  "trim s = rev (dropWhile isWhiteSpace (rev (dropWhile isWhiteSpace s)))"

text \<open>\<open>Array.prototype.join\<close> on an array of strings.\<close>

fun join :: "string \<Rightarrow> string list \<Rightarrow> string" where
  "join sep [] = []"
| "join sep [x] = x"
| "join sep (x # y # ys) = x @ sep @ join sep (y # ys)"

text \<open>\<open>Array.prototype.findIndex\<close>: the first index whose element satisfies the
  predicate, \<open>-1\<close> when there is none.\<close>

fun findIndexFrom :: "nat \<Rightarrow> ('a \<Rightarrow> bool) \<Rightarrow> 'a list \<Rightarrow> int" where
  "findIndexFrom i P [] = -1"
| "findIndexFrom i P (x # xs) = (if P x then int i else findIndexFrom (Suc i) P xs)"

definition findIndex :: "('a \<Rightarrow> bool) \<Rightarrow> 'a list \<Rightarrow> int" where
  "findIndex P xs = findIndexFrom 0 P xs"

section \<open>The question schema\<close>

datatype question_type = QText | QMultipleChoice | QRating

text \<open>
  The fields shared by the two \<open>Question\<close> interfaces of the program. The interface of
  \<open>types/form\<close> adds \<open>id: string\<close>; the one local to the form editor adds
  \<open>id?: string\<close>.
\<close>

record question_fields =
  question_text :: string
  question_type :: question_type
  options :: "string list"
  is_required :: bool
  order_index :: int

record question = question_fields +
  qid :: string

record edit_question = question_fields +
  eid :: "string option"

text \<open>\<open>.map((q, index) => ({ ...q, order_index: index }))\<close> and the loop
  \<open>forEach((q, index) => { q.order_index = index })\<close> both give element \<open>index\<close> the
  order index \<open>index\<close>.\<close>

fun reindexFrom :: "nat \<Rightarrow> ('a question_fields_scheme) list \<Rightarrow> ('a question_fields_scheme) list" where
  "reindexFrom i [] = []"
| "reindexFrom i (q # qs) = q\<lparr>order_index := int i\<rparr> # reindexFrom (Suc i) qs"

definition reindex :: "('a question_fields_scheme) list \<Rightarrow> ('a question_fields_scheme) list" where
  "reindex qs = reindexFrom 0 qs"

subsection \<open>The form creation page\<close>

datatype direction = Up | Down

text \<open>\<open>addQuestion\<close>; the identifier \<open>temp-${Date.now()}\<close> is the argument \<open>newId\<close>.\<close>

definition addQuestion :: "string \<Rightarrow> question list \<Rightarrow> question list" where
  "addQuestion newId qs =
     qs @ [\<lparr>question_text = '''', question_type = QText, options = [],
            is_required = True, order_index = int (length qs), qid = newId\<rparr>]"

definition deleteQuestion :: "string \<Rightarrow> question list \<Rightarrow> question list" where
  "deleteQuestion questionId qs = reindex (filter (\<lambda>q. qid q \<noteq> questionId) qs)"

text \<open>\<open>moveQuestion\<close> returns without touching the state when the question is not found
  or the neighbour is outside the list; otherwise it swaps the two and renumbers.\<close>

definition moveQuestion :: "string \<Rightarrow> direction \<Rightarrow> question list \<Rightarrow> question list" where
  "moveQuestion questionId dir qs =
     (let currentIndex = findIndex (\<lambda>q. qid q = questionId) qs in
      if currentIndex = -1 then qs
      else
        let newIndex = (if dir = Up then currentIndex - 1 else currentIndex + 1) in
        if newIndex < 0 \<or> newIndex \<ge> int (length qs) then qs
        else
          reindex (qs[nat currentIndex := qs ! nat newIndex,
                      nat newIndex := qs ! nat currentIndex]))"

datatype create_op = AddQuestion string | DeleteQuestion string | MoveQuestion string direction

fun create_step :: "question list \<Rightarrow> create_op \<Rightarrow> question list" where
  "create_step qs (AddQuestion newId) = addQuestion newId qs"
| "create_step qs (DeleteQuestion questionId) = deleteQuestion questionId qs"
| "create_step qs (MoveQuestion questionId dir) = moveQuestion questionId dir qs"

subsection \<open>The form editing page\<close>

definition addQuestionE :: "edit_question list \<Rightarrow> edit_question list" where
  "addQuestionE qs =
     qs @ [\<lparr>question_text = '''', question_type = QText, options = [],
            is_required = False, order_index = int (length qs), eid = None\<rparr>]"

text \<open>\<open>questions.filter((_, i) => i !== index)\<close>: an index outside the list removes
  nothing.\<close>

fun removeAt :: "nat \<Rightarrow> 'a list \<Rightarrow> 'a list" where
  "removeAt n [] = []"
| "removeAt 0 (x # xs) = xs"
| "removeAt (Suc n) (x # xs) = x # removeAt n xs"

definition removeQuestion :: "nat \<Rightarrow> edit_question list \<Rightarrow> edit_question list" where
  "removeQuestion index qs = reindex (removeAt index qs)"

datatype edit_op = EAddQuestion | ERemoveQuestion nat

fun edit_step :: "edit_question list \<Rightarrow> edit_op \<Rightarrow> edit_question list" where
  "edit_step qs EAddQuestion = addQuestionE qs"
| "edit_step qs (ERemoveQuestion index) = removeQuestion index qs"

text \<open>The order indices of a list are dense when they read \<open>0, 1, ..., N-1\<close> in list
  order.\<close>

definition dense :: "('a question_fields_scheme) list \<Rightarrow> bool" where
  "dense qs \<longleftrightarrow> map order_index qs = map int [0..<length qs]"

section \<open>Printing numbers\<close>

text \<open>A number inside a template literal prints in decimal.\<close>

definition digit_char :: "nat \<Rightarrow> char" where
  "digit_char d = char_of (48 + d)"

fun show_nat :: "nat \<Rightarrow> string" where
  "show_nat n = (if n < 10 then [digit_char n] else show_nat (n div 10) @ [digit_char (n mod 10)])"

declare show_nat.simps [simp del]

definition show_int :: "int \<Rightarrow> string" where
  "show_int i = (if i < 0 then CHR ''-'' # show_nat (nat (- i)) else show_nat (nat i))"

section \<open>Validation when a form is saved\<close>

subsection \<open>Checks of the form creation page\<close>

record form_data =
  fd_id :: "string option"
  title :: string
  description :: string
  is_active :: bool
  questions :: "question list"

text \<open>
  The checks of \<open>saveForm\<close> on the creation page, in the order of the source. Each
  \<open>throw new Error(msg)\<close> is caught at the end of \<open>saveForm\<close>, which stores \<open>msg\<close> as
  the error and writes nothing; the result is \<open>Some msg\<close> then, and \<open>None\<close> when all
  checks pass.
\<close>

definition createForm_validate :: "form_data \<Rightarrow> string option" where
  "createForm_validate formData =
     (if trim (title formData) = [] then Some ''Form title is required''
      else if length (questions formData) = 0 then Some ''At least one question is required''
      else
        let emptyQuestions = filter (\<lambda>q. trim (question_text q) = []) (questions formData) in
        if length emptyQuestions > 0 then Some ''All questions must have text''
        else
          let invalidMultipleChoice =
                filter (\<lambda>q. question_type q = QMultipleChoice
                            \<and> length (filter (\<lambda>opt. trim opt \<noteq> []) (options q)) = 0)
                       (questions formData) in
          if length invalidMultipleChoice > 0
          then Some ''Multiple choice questions must have at least one option''
          else None)"

subsection \<open>Checks of the form editing page\<close>

record edit_form =
  ef_id :: string
  ef_title :: string
  ef_description :: string
  ef_is_active :: bool

text \<open>The loop \<open>for (let i = 0; i < questions.length; i++)\<close> of \<open>saveForm\<close> on the
  editing page, from index \<open>i\<close> on; it returns at the first question that fails.\<close>

fun validateQuestionsFrom :: "nat \<Rightarrow> edit_question list \<Rightarrow> string option" where
  "validateQuestionsFrom i [] = None"
| "validateQuestionsFrom i (question # rest) =
     (if trim (question_text question) = []
      then Some (''Question '' @ show_nat (i + 1) @ '' text is required'')
      else if question_type question = QMultipleChoice \<and> length (options question) < 2
      then Some (''Question '' @ show_nat (i + 1) @ '' must have at least 2 options'')
      else validateQuestionsFrom (Suc i) rest)"

definition editForm_validate :: "edit_form \<Rightarrow> edit_question list \<Rightarrow> string option" where
  "editForm_validate form qs =
     (if trim (ef_title form) = [] then Some ''Form title is required''
      else if length qs = 0 then Some ''At least one question is required''
      else validateQuestionsFrom 0 qs)"

text \<open>The rows that \<open>saveForm\<close> of the editing page inserts once validation has
  passed.\<close>

record question_insert =
  qi_form_id :: string
  qi_question_text :: string
  qi_question_type :: question_type
  qi_options :: "string list"
  qi_is_required :: bool
  qi_order_index :: int

fun questionsToInsertFrom :: "nat \<Rightarrow> string \<Rightarrow> edit_question list \<Rightarrow> question_insert list" where
  "questionsToInsertFrom index formId [] = []"
| "questionsToInsertFrom index formId (question # rest) =
     \<lparr>qi_form_id = formId,
      qi_question_text = trim (question_text question),
      qi_question_type = question_type question,
      qi_options = filter (\<lambda>opt. trim opt \<noteq> []) (options question),
      qi_is_required = is_required question,
      qi_order_index = int index\<rparr> # questionsToInsertFrom (Suc index) formId rest"

definition questionsToInsert :: "string \<Rightarrow> edit_question list \<Rightarrow> question_insert list" where
  "questionsToInsert formId qs = questionsToInsertFrom 0 formId qs"

section \<open>Submitting a response\<close>

text \<open>
  The answers of the public form are an object from question identifiers to strings.
  It is modelled by its list of entries: \<open>answers[k]\<close> is \<open>map_of answers k\<close> (\<open>None\<close>
  for \<open>undefined\<close>) and \<open>Object.entries(answers)\<close> is the list itself.
\<close>

type_synonym answers = "(string \<times> string) list"

text \<open>The callback of \<open>missingAnswers\<close>: true when the required question \<open>q\<close> has no
  acceptable answer.\<close>

definition isMissing :: "answers \<Rightarrow> question \<Rightarrow> bool" where
  "isMissing answers q =
     (case map_of answers (qid q) of
        None \<Rightarrow> True
      | Some answer \<Rightarrow>
          if answer = [] then True
          else if question_type q = QText \<and> trim answer = [] then True
          else False)"

text \<open>\<open>validateForm\<close> returns whether the answers are acceptable, together with the
  error message it stores (the empty string when it clears the error).\<close>

definition validateForm :: "question list \<Rightarrow> answers \<Rightarrow> bool \<times> string" where
  "validateForm qs answers =
     (let requiredQuestions = filter is_required qs;
          missingAnswers = filter (isMissing answers) requiredQuestions in
      if length missingAnswers > 0 then
        let missingQuestionNumbers =
              map (\<lambda>q. findIndex (\<lambda>question. qid question = qid q) qs + 1) missingAnswers in
        (False, ''Please answer all required questions. Missing: Question ''
                  @ join '', '' (map show_int missingQuestionNumbers))
      else (True, []))"

record answer_insert =
  response_id :: string
  question_id :: string
  answer_text :: string

text \<open>The filter of \<open>answersToInsert\<close>; \<open>question?.question_type === 'text'\<close> is false
  when no question has the identifier.\<close>

definition keepAnswer :: "question list \<Rightarrow> string \<times> string \<Rightarrow> bool" where
  "keepAnswer qs entry =
     (case entry of (questionId, val) \<Rightarrow>
        if val = [] then False
        else
          (case find (\<lambda>q. qid q = questionId) qs of
             Some question \<Rightarrow>
               if question_type question = QText then length (trim val) > 0 else True
           | None \<Rightarrow> True))"

definition answersToInsert :: "string \<Rightarrow> question list \<Rightarrow> answers \<Rightarrow> answer_insert list" where
  "answersToInsert responseId qs answers =
     map (\<lambda>(questionId, answerText).
            \<lparr>response_id = responseId, question_id = questionId, answer_text = trim answerText\<rparr>)
         (filter (keepAnswer qs) answers)"

text \<open>The stored rows of one response, read back as an object from question
  identifier to answer text.\<close>

definition storedAnswers :: "answer_insert list \<Rightarrow> answers" where
  "storedAnswers rows = map (\<lambda>r. (question_id r, answer_text r)) rows"

section \<open>Aggregation\<close>

subsection \<open>Numbers\<close>

text \<open>
  The averages of the program are IEEE doubles; they are modelled by exact rationals.
  \<open>Math.round\<close> rounds to the nearest integer, a half upwards.
\<close>

definition math_round :: "rat \<Rightarrow> int" where
  "math_round x = \<lfloor>x + 1 / 2\<rfloor>"

definition round1 :: "rat \<Rightarrow> rat" where
  "round1 avg = of_int (math_round (avg * 10)) / 10"

definition mean_or_zero :: "int list \<Rightarrow> rat" where
  "mean_or_zero ratingAnswers =
     (if length ratingAnswers > 0
      then of_int (sum_list ratingAnswers) / of_nat (length ratingAnswers)
      else 0)"

text \<open>
  \<open>parseInt(s)\<close> without a radix: skip leading white space, read an optional sign, read
  an optional \<open>0x\<close> or \<open>0X\<close> (the radix is 16 then, else 10), and read the longest run
  of digits of the radix; what follows is ignored. Without a digit the result is \<open>NaN\<close>,
  here \<open>None\<close>. The result is the exact integer here; the program has the nearest
  double, which is the same number up to \<open>2^53\<close> in absolute value.
\<close>

definition digitValue :: "nat \<Rightarrow> char \<Rightarrow> nat option" where
  "digitValue R c =
     (let n = (of_char c :: nat);
          v = (if 48 \<le> n \<and> n \<le> 57 then Some (n - 48)
               else if 97 \<le> n \<and> n \<le> 122 then Some (n - 87)
               else if 65 \<le> n \<and> n \<le> 90 then Some (n - 55)
               else None)
      in case v of None \<Rightarrow> None | Some d \<Rightarrow> if d < R then Some d else None)"

definition digitsValue :: "nat \<Rightarrow> string \<Rightarrow> int" where
  "digitsValue R z =
     foldl (\<lambda>acc c. acc * int R + (case digitValue R c of Some d \<Rightarrow> int d | None \<Rightarrow> 0)) 0 z"

definition parseInt :: "string \<Rightarrow> int option" where
  "parseInt inputString =
     (let s0 = dropWhile isWhiteSpace inputString;
          negative = (s0 \<noteq> [] \<and> hd s0 = CHR ''-'');
          s1 = (if s0 \<noteq> [] \<and> (hd s0 = CHR ''+'' \<or> hd s0 = CHR ''-'') then tl s0 else s0);
          hex = (take 2 s1 = ''0x'' \<or> take 2 s1 = ''0X'');
          R = (if hex then 16 else 10);
          s2 = (if hex then drop 2 s1 else s1);
          z = takeWhile (\<lambda>c. digitValue R c \<noteq> None) s2
      in if z = [] then None
         else Some (if negative then - digitsValue R z else digitsValue R z))"

subsection \<open>The responses of one form\<close>

record response_answer =
  ra_question_text :: string
  ra_question_type :: string
  ra_answer_text :: string
  ra_order_index :: int

record form_response =
  fr_id :: string
  fr_submitted_at :: string
  fr_ip_address :: "string option"
  fr_user_agent :: "string option"
  fr_answers :: "response_answer list"

text \<open>The statistics of \<open>loadFormAndResponses\<close>.\<close>

definition ratingAnswers :: "form_response list \<Rightarrow> int list" where
  "ratingAnswers transformedResponses =
     concat (map (\<lambda>r. List.map_filter parseInt
                        (map ra_answer_text
                           (filter (\<lambda>answer. ra_question_type answer = ''rating'') (fr_answers r))))
                 transformedResponses)"

definition avgRating :: "form_response list \<Rightarrow> rat" where
  "avgRating transformedResponses = round1 (mean_or_zero (ratingAnswers transformedResponses))"

text \<open>
  \<open>exportResponses\<close>. \<open>toLocaleString\<close> stands for
  \<open>s \<mapsto> new Date(s).toLocaleString()\<close>, which depends on the locale of the browser.
  \<open>replaceQuotes\<close> is \<open>.replace(/"/g, '""')\<close>.
\<close>

fun replaceQuotes :: "string \<Rightarrow> string" where
  "replaceQuotes [] = []"
| "replaceQuotes (c # cs) =
     (if c = CHR 0x22 then CHR 0x22 # CHR 0x22 # replaceQuotes cs else c # replaceQuotes cs)"

definition quoteAnswer :: "string \<Rightarrow> string" where
  "quoteAnswer s = CHR 0x22 # replaceQuotes s @ [CHR 0x22]"

definition csvHeaders :: "form_response list \<Rightarrow> string list" where
  "csvHeaders responses =
     [''Response ID'', ''Submitted At'', ''IP Address'']
     @ (case responses of [] \<Rightarrow> [] | r0 # _ \<Rightarrow> map ra_question_text (fr_answers r0))"

definition csvRow :: "(string \<Rightarrow> string) \<Rightarrow> form_response \<Rightarrow> string list" where
  "csvRow toLocaleString response =
     [fr_id response,
      toLocaleString (fr_submitted_at response),
      (case fr_ip_address response of
         None \<Rightarrow> ''N/A''
       | Some ip \<Rightarrow> if ip = [] then ''N/A'' else ip)]
     @ map (\<lambda>answer. quoteAnswer (ra_answer_text answer)) (fr_answers response)"

definition csvCells :: "(string \<Rightarrow> string) \<Rightarrow> form_response list \<Rightarrow> string list list" where
  "csvCells toLocaleString responses = csvHeaders responses # map (csvRow toLocaleString) responses"

text \<open>The text of the downloaded file; \<open>None\<close> when there is no response and
  \<open>exportResponses\<close> returns at once.\<close>

definition exportResponses :: "(string \<Rightarrow> string) \<Rightarrow> form_response list \<Rightarrow> string option" where
  "exportResponses toLocaleString responses =
     (if length responses = 0 then None
      else Some (join [CHR 0x0A] (map (join '','') (csvCells toLocaleString responses))))"

subsection \<open>The responses of all forms\<close>

record raw_answer =
  raw_answer_text :: string
  raw_question_text :: string
  raw_question_type :: string

record raw_response =
  raw_id :: string
  raw_submitted_at :: string
  raw_form_id :: string
  raw_form_title :: string
  raw_answers :: "raw_answer list"

text \<open>
  An object that starts empty and is filled by assignments, as the list of its entries
  in the order of their creation: \<open>acc[k] = v\<close> replaces the value of a key that is
  there and appends a new key otherwise. The key \<open>__proto__\<close> is the exception: on a
  plain object the assignment of a string to it stores nothing.
\<close>

fun obj_put :: "(string \<times> 'v) list \<Rightarrow> string \<Rightarrow> 'v \<Rightarrow> (string \<times> 'v) list" where
  "obj_put [] k v = [(k, v)]"
| "obj_put ((k', v') # rest) k v =
     (if k' = k then (k', v) # rest else (k', v') # obj_put rest k v)"

definition obj_assign :: "(string \<times> 'v) list \<Rightarrow> string \<Rightarrow> 'v \<Rightarrow> (string \<times> 'v) list" where
  "obj_assign obj k v = (if k = ''__proto__'' then obj else obj_put obj k v)"

text \<open>
  \<open>Object.values\<close> lists the values of the keys that are array indices first (the
  decimal numerals without a leading zero up to \<open>2^32 - 2\<close>), by ascending index, and
  then the values of the other keys in the order of their creation.
\<close>

definition isArrayIndex :: "string \<Rightarrow> bool" where
  "isArrayIndex k \<longleftrightarrow>
     k \<noteq> [] \<and> list_all (\<lambda>c. digitValue 10 c \<noteq> None) k
     \<and> (if hd k = CHR ''0'' then length k = 1 else True)
     \<and> digitsValue 10 k \<le> 4294967294"

definition objectValues :: "(string \<times> 'v) list \<Rightarrow> 'v list" where
  "objectValues obj =
     map snd (sort_key (\<lambda>entry. digitsValue 10 (fst entry)) (filter (\<lambda>entry. isArrayIndex (fst entry)) obj))
     @ map snd (filter (\<lambda>entry. \<not> isArrayIndex (fst entry)) obj)"

record transformed_response =
  tr_id :: string
  tr_formTitle :: string
  tr_formId :: string
  tr_submittedAt :: string
  tr_answers :: "(string \<times> string) list"

definition transformResponse :: "raw_response \<Rightarrow> transformed_response" where
  "transformResponse response =
     \<lparr>tr_id = raw_id response,
      tr_formTitle = raw_form_title response,
      tr_formId = raw_form_id response,
      tr_submittedAt = raw_submitted_at response,
      tr_answers = foldl (\<lambda>acc answer. obj_assign acc (raw_question_text answer) (raw_answer_text answer))
                         [] (raw_answers response)\<rparr>"

text \<open>\<open>/^[1-5]$/.test(answer.toString())\<close> and \<open>Number\<close> on a string that passed the
  test.\<close>

definition isRatingText :: "string \<Rightarrow> bool" where
  "isRatingText s \<longleftrightarrow> length s = 1 \<and> hd s \<in> set ''12345''"

definition numberOfRatingText :: "string \<Rightarrow> int" where
  "numberOfRatingText s = int (of_char (hd s)) - 48"

definition ratingAnswersAll :: "transformed_response list \<Rightarrow> int list" where
  "ratingAnswersAll transformedResponses =
     concat (map (\<lambda>r. map numberOfRatingText (filter isRatingText (objectValues (tr_answers r))))
                 transformedResponses)"

definition avgRatingAll :: "raw_response list \<Rightarrow> rat" where
  "avgRatingAll responsesData =
     round1 (mean_or_zero (ratingAnswersAll (map transformResponse responsesData)))"

subsection \<open>The trend of the dashboard\<close>

record monthly_response =
  mr_id :: string
  mr_submitted_at :: string

definition startsWith :: "string \<Rightarrow> string \<Rightarrow> bool" where
  "startsWith s p \<longleftrightarrow> take (length p) s = p"

text \<open>
  A \<open>Date\<close> of the browser holds a time value: the milliseconds since 1970-01-01T00:00
  UTC, here an \<open>int\<close> (the bound of 8.64e15 on its size is left out). The functions
  below are those of the language standard, under their names there, for the proleptic
  Gregorian calendar; months count from 0 in \<open>MonthFromTime\<close> and \<open>MakeDay\<close>.
\<close>

definition msPerDay :: int where
  "msPerDay = 86400000"

definition Day :: "int \<Rightarrow> int" where
  "Day t = t div msPerDay"

definition TimeWithinDay :: "int \<Rightarrow> int" where
  "TimeWithinDay t = t mod msPerDay"

text \<open>
  Year, month (1 to 12) and day of the month of a day number. The day number is
  counted from 0000-03-01 and split into the cycle of 400 years (146097 days) and the
  day within the cycle; then come the year within the cycle, the day within the year
  (a year that begins in March), the month counted from March, and the day of the
  month.
\<close>

definition civil_of_month :: "int \<Rightarrow> int \<Rightarrow> int \<Rightarrow> int \<times> int \<times> int" where
  "civil_of_month y m d = (if m \<le> 2 then y + 1 else y, m, d)"

definition civil_of_mp :: "int \<Rightarrow> int \<Rightarrow> int \<Rightarrow> int \<times> int \<times> int" where
  "civil_of_mp y doy mp =
     civil_of_month y (if mp < 10 then mp + 3 else mp - 9) (doy - (153 * mp + 2) div 5 + 1)"

definition civil_of_doy :: "int \<Rightarrow> int \<Rightarrow> int \<times> int \<times> int" where
  "civil_of_doy y doy = civil_of_mp y doy ((5 * doy + 2) div 153)"

definition civil_of_yoe :: "int \<Rightarrow> int \<Rightarrow> int \<Rightarrow> int \<times> int \<times> int" where
  "civil_of_yoe era doe yoe =
     civil_of_doy (yoe + era * 400) (doe - (365 * yoe + yoe div 4 - yoe div 100))"

definition civil_of_doe :: "int \<Rightarrow> int \<Rightarrow> int \<times> int \<times> int" where
  "civil_of_doe era doe =
     civil_of_yoe era doe ((doe - doe div 1460 + doe div 36524 - doe div 146096) div 365)"

definition civil_from_days :: "int \<Rightarrow> int \<times> int \<times> int" where
  "civil_from_days z = civil_of_doe ((z + 719468) div 146097) ((z + 719468) mod 146097)"

text \<open>The day number of a year, a month (1 to 12) and a day of the month; the day of
  the month may lie outside the month and counts on from it.\<close>

definition days_of_yoe :: "int \<Rightarrow> int \<Rightarrow> int \<Rightarrow> int" where
  "days_of_yoe era yoe doy =
     era * 146097 + (yoe * 365 + yoe div 4 - yoe div 100 + doy) - 719468"

definition days_of_march_year :: "int \<Rightarrow> int \<Rightarrow> int" where
  "days_of_march_year y doy = days_of_yoe (y div 400) (y mod 400) doy"

definition days_from_civil :: "int \<Rightarrow> int \<Rightarrow> int \<Rightarrow> int" where
  "days_from_civil y m d =
     days_of_march_year (if m \<le> 2 then y - 1 else y)
       ((153 * (if m > 2 then m - 3 else m + 9) + 2) div 5 + d - 1)"

definition YearFromTime :: "int \<Rightarrow> int" where
  "YearFromTime t = fst (civil_from_days (Day t))"

definition MonthFromTime :: "int \<Rightarrow> int" where
  "MonthFromTime t = fst (snd (civil_from_days (Day t))) - 1"

definition DateFromTime :: "int \<Rightarrow> int" where
  "DateFromTime t = snd (snd (civil_from_days (Day t)))"

definition MakeDay :: "int \<Rightarrow> int \<Rightarrow> int \<Rightarrow> int" where
  "MakeDay year month dt = days_from_civil (year + month div 12) (month mod 12 + 1) 1 + dt - 1"

definition MakeDate :: "int \<Rightarrow> int \<Rightarrow> int" where
  "MakeDate day time = day * msPerDay + time"

text \<open>
  The time zone of the browser gives the offset of local time from UTC, in
  milliseconds: \<open>offsetAtUTC t\<close> for the instant \<open>t\<close>, and \<open>offsetAtLocal t\<close> for the local
  time \<open>t\<close>. Where a local time occurs twice or not at all, at a change of the offset,
  the standard takes the offset before the change.
\<close>

record time_zone =
  offsetAtUTC :: "int \<Rightarrow> int"
  offsetAtLocal :: "int \<Rightarrow> int"

definition LocalTime :: "time_zone \<Rightarrow> int \<Rightarrow> int" where
  "LocalTime tz t = t + offsetAtUTC tz t"

definition UTC :: "time_zone \<Rightarrow> int \<Rightarrow> int" where
  "UTC tz t = t - offsetAtLocal tz t"

text \<open>\<open>date.getDate()\<close> and \<open>date.setDate(dt)\<close> work in local time; \<open>setDate\<close> returns
  the new time value of the date.\<close>

definition getDate :: "time_zone \<Rightarrow> int \<Rightarrow> int" where
  "getDate tz t = DateFromTime (LocalTime tz t)"

definition setDate :: "time_zone \<Rightarrow> int \<Rightarrow> int \<Rightarrow> int" where
  "setDate tz t dt =
     UTC tz (MakeDate (MakeDay (YearFromTime (LocalTime tz t)) (MonthFromTime (LocalTime tz t)) dt)
                      (TimeWithinDay (LocalTime tz t)))"

text \<open>\<open>date.toISOString()\<close> prints the time value in UTC as
  \<open>YYYY-MM-DDTHH:mm:ss.sssZ\<close>; a year outside 0 to 9999 has a sign and six digits.\<close>

text \<open>\<open>pad n v\<close> is the last \<open>n\<close> decimal digits of \<open>v\<close>; no field printed below has
  more.\<close>

fun pad :: "nat \<Rightarrow> int \<Rightarrow> string" where
  "pad 0 v = []"
| "pad (Suc n) v = pad n (v div 10) @ [char_of (48 + v mod 10)]"

definition isoYear :: "int \<Rightarrow> string" where
  "isoYear y =
     (if 0 \<le> y \<and> y \<le> 9999 then pad 4 y
      else (if y < 0 then CHR ''-'' else CHR ''+'') # pad 6 (abs y))"

definition isoTime :: "int \<Rightarrow> string" where
  "isoTime w =
     pad 2 (w div 3600000) @ '':'' @ pad 2 (w div 60000 mod 60) @ '':''
     @ pad 2 (w div 1000 mod 60) @ ''.'' @ pad 3 (w mod 1000)"

definition toISOString :: "int \<Rightarrow> string" where
  "toISOString t =
     isoYear (YearFromTime t) @ ''-'' @ pad 2 (MonthFromTime t + 1) @ ''-'' @ pad 2 (DateFromTime t)
     @ ''T'' @ isoTime (TimeWithinDay t) @ ''Z''"

text \<open>
  \<open>last7Days\<close>: element \<open>i\<close> is
  \<open>date = new Date(); date.setDate(date.getDate() - (6 - i)); date.toISOString().split('T')[0]\<close>,
  where \<open>.split('T')[0]\<close> keeps what precedes the first \<open>T\<close>. The seven calls of
  \<open>new Date()\<close> follow one another at once; they read the same time value \<open>now\<close>.
\<close>

definition isoDaysAgo :: "time_zone \<Rightarrow> int \<Rightarrow> int \<Rightarrow> string" where
  "isoDaysAgo tz now k = toISOString (setDate tz now (getDate tz now - k))"

definition last7Days :: "time_zone \<Rightarrow> int \<Rightarrow> string list" where
  "last7Days tz now =
     map (\<lambda>i. takeWhile (\<lambda>c. c \<noteq> CHR ''T'') (isoDaysAgo tz now (6 - int i))) [0..<7]"

record trend_point =
  date :: string
  count :: nat

text \<open>\<open>monthlyResponses\<close> is \<open>None\<close> when the query returned \<open>null\<close>.\<close>

definition trendData :: "time_zone \<Rightarrow> int \<Rightarrow> monthly_response list option \<Rightarrow> trend_point list" where
  "trendData tz now monthlyResponses =
     map (\<lambda>d. \<lparr>date = d,
                count = (case monthlyResponses of
                           None \<Rightarrow> 0
                         | Some rs \<Rightarrow> length (filter (\<lambda>response. startsWith (mr_submitted_at response) d) rs))\<rparr>)
         (last7Days tz now)"

section \<open>The words of the specification\<close>

text \<open>
  A question is answered when the object of answers holds a non-empty value for its
  identifier and, for a question of type text, the trimmed value is non-empty too.
\<close>

definition answered :: "answers \<Rightarrow> question \<Rightarrow> bool" where
  "answered answers q =
     (case map_of answers (qid q) of
        None \<Rightarrow> False
      | Some v \<Rightarrow> v \<noteq> [] \<and> (question_type q = QText \<longrightarrow> trim v \<noteq> []))"

text \<open>The positions, counted from 1 and in question order, of the required questions
  that are not answered.\<close>

definition violations :: "question list \<Rightarrow> answers \<Rightarrow> nat list" where
  "violations qs answers =
     map (\<lambda>i. i + 1)
         (filter (\<lambda>i. is_required (qs ! i) \<and> \<not> answered answers (qs ! i)) [0..<length qs])"

text \<open>The owning question of an answer is the first question with its identifier.\<close>

definition ownerIsText :: "question list \<Rightarrow> string \<Rightarrow> bool" where
  "ownerIsText qs k =
     (case find (\<lambda>q. qid q = k) qs of None \<Rightarrow> False | Some q \<Rightarrow> question_type q = QText)"

section \<open>Example data\<close>

definition q_name :: question where
  "q_name = \<lparr>question_text = ''Your name'', question_type = QText, options = [],
              is_required = True, order_index = 0, qid = ''q1''\<rparr>"

definition q_note :: question where
  "q_note = \<lparr>question_text = ''Anything else'', question_type = QText, options = [],
              is_required = False, order_index = 1, qid = ''q2''\<rparr>"

definition q_stars :: question where
  "q_stars = \<lparr>question_text = ''Your rating'', question_type = QRating, options = [],
               is_required = True, order_index = 2, qid = ''q3''\<rparr>"

definition q_choice :: edit_question where
  "q_choice = \<lparr>question_text = ''Pick one'', question_type = QMultipleChoice,
                options = [''Yes'', ''''], is_required = True, order_index = 0, eid = None\<rparr>"

definition form_poll :: edit_form where
  "form_poll = \<lparr>ef_id = ''f1'', ef_title = ''Poll'', ef_description = '''', ef_is_active = True\<rparr>"

definition q_choice_one :: question where
  "q_choice_one = \<lparr>question_text = ''Pick one'', question_type = QMultipleChoice,
                options = [''Yes''], is_required = True, order_index = 0, qid = ''temp-1''\<rparr>"

definition resp_quote :: form_response where
  "resp_quote = \<lparr>fr_id = ''r1'', fr_submitted_at = ''2025-07-18T02:19:19+00:00'',
                  fr_ip_address = None, fr_user_agent = None,
                  fr_answers = [\<lparr>ra_question_text = ''Comment'', ra_question_type = ''text'',
                                 ra_answer_text = ''He said \"hi\"'', ra_order_index = 0\<rparr>]\<rparr>"

definition raw_mixed :: raw_response where
  "raw_mixed = \<lparr>raw_id = ''r1'', raw_submitted_at = ''2025-07-18T02:19:19+00:00'',
                 raw_form_id = ''f1'', raw_form_title = ''Visit'',
                 raw_answers = [\<lparr>raw_answer_text = ''5'', raw_question_text = ''How many of you came?'',
                                  raw_question_type = ''text''\<rparr>,
                                \<lparr>raw_answer_text = ''1'', raw_question_text = ''Your rating'',
                                  raw_question_type = ''rating''\<rparr>]\<rparr>"

definition resp_mixed :: form_response where
  "resp_mixed = \<lparr>fr_id = ''r1'', fr_submitted_at = ''2025-07-18T02:19:19+00:00'',
                  fr_ip_address = None, fr_user_agent = None,
                  fr_answers = [\<lparr>ra_question_text = ''How many of you came?'', ra_question_type = ''text'',
                                 ra_answer_text = ''5'', ra_order_index = 0\<rparr>,
                                \<lparr>ra_question_text = ''Your rating'', ra_question_type = ''rating'',
                                 ra_answer_text = ''1'', ra_order_index = 1\<rparr>]\<rparr>"

definition resp_ratings :: "string list \<Rightarrow> form_response" where
  "resp_ratings texts =
     \<lparr>fr_id = ''r1'', fr_submitted_at = ''2025-07-18T02:19:19+00:00'',
      fr_ip_address = None, fr_user_agent = None,
      fr_answers = map (\<lambda>t. \<lparr>ra_question_text = ''Your rating'', ra_question_type = ''rating'',
                               ra_answer_text = t, ra_order_index = 0\<rparr>) texts\<rparr>"

text \<open>
  The zone of Berlin around the end of summer time in 2025: the offset is two hours
  until 2025-10-26T01:00 UTC, when the clocks go from 03:00 back to 02:00, and one hour
  from then on. The local times from 02:00 to 03:00 of that day occur twice and take
  the offset before the change.
\<close>

definition berlin_autumn_2025 :: time_zone where
  "berlin_autumn_2025 =
     \<lparr>offsetAtUTC = (\<lambda>t. if t < 1761440400000 then 7200000 else 3600000),
      offsetAtLocal = (\<lambda>t. if t < 1761447600000 then 7200000 else 3600000)\<rparr>"

definition utc_zone :: time_zone where
  "utc_zone = \<lparr>offsetAtUTC = (\<lambda>t. 0), offsetAtLocal = (\<lambda>t. 0)\<rparr>"

text \<open>The instant 2025-10-28T00:30 UTC, which is 01:30 of that day in Berlin.\<close>

definition now_oct28 :: int where
  "now_oct28 = 1761611400000"

definition resp_oct26 :: monthly_response where
  "resp_oct26 = \<lparr>mr_id = ''r1'', mr_submitted_at = ''2025-10-26T09:00:00+00:00''\<rparr>"

section \<open>Dense order indices\<close>

lemma length_reindexFrom: "length (reindexFrom i qs) = length qs"
  by (induction qs arbitrary: i) simp_all

lemma order_index_reindexFrom:
  "map order_index (reindexFrom i qs) = map int [i..<i + length qs]"
proof (induction qs arbitrary: i)
  case Nil
  show ?case by simp
next
  case (Cons q qs)
  have "i < Suc i + length qs" by simp
  then have "[i..<Suc i + length qs] = i # [Suc i..<Suc i + length qs]"
    by (rule upt_conv_Cons)
  with Cons show ?case by simp
qed

lemma dense_reindex: "dense (reindex qs)"
  by (simp add: dense_def reindex_def order_index_reindexFrom length_reindexFrom)

lemma dense_addQuestion: "dense qs \<Longrightarrow> dense (addQuestion newId qs)"
  by (simp add: dense_def addQuestion_def)

lemma dense_addQuestionE: "dense qs \<Longrightarrow> dense (addQuestionE qs)"
  by (simp add: dense_def addQuestionE_def)

lemma dense_moveQuestion: "dense qs \<Longrightarrow> dense (moveQuestion questionId dir qs)"
  by (simp add: moveQuestion_def Let_def dense_reindex)

lemma dense_create_step: "dense qs \<Longrightarrow> dense (create_step qs x)"
  by (cases x) (simp_all add: dense_addQuestion deleteQuestion_def dense_reindex dense_moveQuestion)

lemma dense_edit_step: "dense qs \<Longrightarrow> dense (edit_step qs x)"
  by (cases x) (simp_all add: dense_addQuestionE removeQuestion_def dense_reindex)

lemma dense_create_steps: "dense qs \<Longrightarrow> dense (foldl create_step qs xs)"
  by (induction xs arbitrary: qs) (simp_all add: dense_create_step)

lemma dense_edit_steps: "dense qs \<Longrightarrow> dense (foldl edit_step qs xs)"
  by (induction xs arbitrary: qs) (simp_all add: dense_edit_step)

text \<open>Three questions are added, the last one is moved up and the first one is
  deleted: the two that remain are numbered 0 and 1.\<close>

lemma create_steps_example:
  "map (\<lambda>q. (qid q, order_index q))
       (foldl create_step []
          [AddQuestion ''a'', AddQuestion ''b'', AddQuestion ''c'', MoveQuestion ''c'' Up,
           DeleteQuestion ''a''])
     = [(''c'', 0), (''b'', 1)]"
  by code_simp

text \<open>
  C1. Starting from the empty question list, after any sequence of \<open>addQuestion\<close>,
  \<open>deleteQuestion\<close> and \<open>moveQuestion\<close> on the creation page, and after any sequence of
  \<open>addQuestion\<close> and \<open>removeQuestion\<close> on the editing page, the order indices of the
  questions are \<open>0, 1, ..., N-1\<close> in list order: no duplicate and no gap.
\<close>

theorem order_index_dense:
  "map order_index (foldl create_step [] xs) = map int [0..<length (foldl create_step [] xs)]
   \<and> map order_index (foldl edit_step [] ys) = map int [0..<length (foldl edit_step [] ys)]"
proof -
  have "dense (foldl create_step [] xs)"
    by (rule dense_create_steps) (simp add: dense_def)
  moreover have "dense (foldl edit_step [] ys)"
    by (rule dense_edit_steps) (simp add: dense_def)
  ultimately show ?thesis by (simp add: dense_def)
qed

section \<open>Facts about strings and lists\<close>

lemma trim_Nil_or_ends:
  "trim s = [] \<or> (\<not> isWhiteSpace (hd (trim s)) \<and> \<not> isWhiteSpace (last (trim s)))"
proof (cases "trim s = []")
  case True then show ?thesis by simp
next
  case False
  define t where "t = dropWhile isWhiteSpace s"
  define u where "u = dropWhile isWhiteSpace (rev t)"
  have ts: "trim s = rev u" by (simp add: trim_def t_def u_def)
  with False have une: "u \<noteq> []" by simp
  then have hu: "\<not> isWhiteSpace (hd u)" unfolding u_def by (rule hd_dropWhile)
  have tne: "t \<noteq> []" using une by (auto simp: u_def)
  then have ht: "\<not> isWhiteSpace (hd t)" unfolding t_def by (rule hd_dropWhile)
  obtain n where "u = drop n (rev t)" unfolding u_def by (metis dropWhile_eq_drop)
  then have "rev u = take (length t - n) t" by (simp add: rev_drop)
  moreover from this une have "length t - n > 0" by (cases "length t - n") auto
  ultimately have "hd (rev u) = hd t" using tne by (cases t) (auto simp: take_Cons')
  with ht hu une ts show ?thesis by (simp add: last_rev)
qed

lemma trim_idem: "trim (trim s) = trim s"
proof (cases "trim s = []")
  case True
  have "trim [] = []" by (simp add: trim_def)
  with True show ?thesis by simp
next
  case False
  with trim_Nil_or_ends[of s] have h: "\<not> isWhiteSpace (hd (trim s))" and l: "\<not> isWhiteSpace (last (trim s))" by auto
  from False h have a: "dropWhile isWhiteSpace (trim s) = trim s" by (cases "trim s") auto
  from False l have "\<not> isWhiteSpace (hd (rev (trim s)))" by (simp add: hd_rev)
  with False have b: "dropWhile isWhiteSpace (rev (trim s)) = rev (trim s)" by (cases "rev (trim s)") auto
  show ?thesis unfolding trim_def[of "trim s"] a b by simp
qed

lemma findIndexFrom_first:
  "i < length xs \<Longrightarrow> P (xs ! i) \<Longrightarrow> (\<forall>j<i. \<not> P (xs ! j)) \<Longrightarrow> findIndexFrom k P xs = int (k + i)"
proof (induction xs arbitrary: i k)
  case Nil then show ?case by simp
next
  case (Cons x xs)
  show ?case
  proof (cases i)
    case 0 with Cons.prems show ?thesis by simp
  next
    case (Suc m)
    with Cons.prems have "\<not> P x" by auto
    moreover have "findIndexFrom (Suc k) P xs = int (Suc k + m)"
      using Cons.prems Suc by (intro Cons.IH) auto
    ultimately show ?thesis using Suc by simp
  qed
qed

lemma findIndex_distinct:
  assumes "distinct (map f xs)" "i < length xs"
  shows "findIndex (\<lambda>y. f y = f (xs ! i)) xs = int i"
proof -
  have "\<forall>j<i. f (xs ! j) \<noteq> f (xs ! i)"
    using assms by (auto simp: distinct_conv_nth)
  with assms(2) show ?thesis
    unfolding findIndex_def using findIndexFrom_first[of i xs "\<lambda>y. f y = f (xs ! i)" 0] by simp
qed

lemma filter_as_indices: "filter P xs = map (nth xs) (filter (\<lambda>i. P (xs ! i)) [0..<length xs])"
proof -
  have "filter P xs = filter P (map (nth xs) [0..<length xs])" by (simp add: map_nth)
  also have "\<dots> = map (nth xs) (filter (P \<circ> nth xs) [0..<length xs])" by (simp only: filter_map)
  finally show ?thesis by (simp add: comp_def)
qed

lemma show_int_nat: "show_int (int n) = show_nat n"
  by (simp add: show_int_def)

section \<open>Validating a submission\<close>

lemma isMissing_answered: "isMissing answers q \<longleftrightarrow> \<not> answered answers q"
  by (auto simp: isMissing_def answered_def split: option.splits)


lemma missing_numbers:
  assumes "distinct (map qid qs)"
  shows "map (\<lambda>q. show_int (findIndex (\<lambda>question. qid question = qid q) qs + 1)) (filter P qs)
           = map show_nat (map (\<lambda>i. i + 1) (filter (\<lambda>i. P (qs ! i)) [0..<length qs]))"
proof -
  have "show_int (findIndex (\<lambda>question. qid question = qid (qs ! i)) qs + 1) = show_nat (i + 1)"
    if "i < length qs" for i
  proof -
    have "findIndex (\<lambda>question. qid question = qid (qs ! i)) qs + 1 = int (i + 1)"
      using findIndex_distinct[OF assms that] by simp
    then show ?thesis by (simp only: show_int_nat)
  qed
  then show ?thesis
    by (subst filter_as_indices) (simp add: comp_def)
qed

text \<open>
  C3. For questions with distinct identifiers, \<open>validateForm\<close> succeeds exactly when
  every required question is answered: its answer is present and non-empty and, for a
  question of type text, non-empty after trimming. When it fails it has looked at every
  question: its one message lists the positions, counted from 1 and in question order,
  of all required questions that are not answered.
\<close>

theorem validateForm_reports_all:
  assumes "distinct (map qid qs)"
  shows "validateForm qs answers =
           (if \<forall>q\<in>set qs. is_required q \<longrightarrow> answered answers q then (True, [])
            else (False, ''Please answer all required questions. Missing: Question ''
                           @ join '', '' (map show_nat (violations qs answers))))"
proof -
  let ?bad = "\<lambda>q. is_required q \<and> \<not> answered answers q"
  have empty: "filter ?bad qs = [] \<longleftrightarrow> (\<forall>q\<in>set qs. is_required q \<longrightarrow> answered answers q)"
    by (auto simp: filter_empty_conv)
  show ?thesis
  proof (cases "filter ?bad qs = []")
    case True
    with empty show ?thesis by (simp add: validateForm_def Let_def isMissing_answered)
  next
    case False
    with empty have "\<not> (\<forall>q\<in>set qs. is_required q \<longrightarrow> answered answers q)" by simp
    with False show ?thesis
      using missing_numbers[OF assms, of ?bad]
      by (simp add: validateForm_def Let_def isMissing_answered violations_def comp_def)
  qed
qed

theorem validateForm_reports_all_witness:
  "distinct (map qid [q_name, q_note, q_stars])
   \<and> validateForm [q_name, q_note, q_stars] [(''q1'', ''   ''), (''q2'', ''fine'')]
       = (False, ''Please answer all required questions. Missing: Question 1, 3'')"
proof -
  have d: "distinct (map qid [q_name, q_note, q_stars])"
    by (simp add: q_name_def q_note_def q_stars_def)
  have "validateForm [q_name, q_note, q_stars] [(''q1'', ''   ''), (''q2'', ''fine'')]
          = (if \<forall>q\<in>set [q_name, q_note, q_stars].
                   is_required q \<longrightarrow> answered [(''q1'', ''   ''), (''q2'', ''fine'')] q
             then (True, [])
             else (False, ''Please answer all required questions. Missing: Question ''
                    @ join '', '' (map show_nat
                        (violations [q_name, q_note, q_stars] [(''q1'', ''   ''), (''q2'', ''fine'')]))))"
    by (rule validateForm_reports_all[OF d])
  also have "\<dots> = (False, ''Please answer all required questions. Missing: Question 1, 3'')"
    by code_simp
  finally show ?thesis using d by simp
qed

section \<open>Validating what was stored\<close>

lemma storedAnswers_answersToInsert:
  "storedAnswers (answersToInsert rid qs answers)
     = map (\<lambda>(k, v). (k, trim v)) (filter (keepAnswer qs) answers)"
  by (simp add: storedAnswers_def answersToInsert_def comp_def case_prod_unfold)

lemma map_of_filter_first:
  "map_of xs k = Some v \<Longrightarrow> P (k, v) \<Longrightarrow> map_of (filter P xs) k = Some v"
  by (induction xs) (auto split: if_splits)

lemma keepAnswer_nonblank: "trim v \<noteq> [] \<Longrightarrow> keepAnswer qs (k, v)"
proof -
  assume a: "trim v \<noteq> []"
  have "trim [] = []" by (simp add: trim_def)
  with a have "v \<noteq> []" by auto
  with a show ?thesis by (simp add: keepAnswer_def split: option.splits)
qed

lemma stored_lookup:
  assumes "map_of answers k = Some v" "trim v \<noteq> []"
  shows "map_of (storedAnswers (answersToInsert rid qs answers)) k = Some (trim v)"
proof -
  have "map_of (filter (keepAnswer qs) answers) k = Some v"
    using assms by (intro map_of_filter_first keepAnswer_nonblank)
  then show ?thesis
    by (simp add: storedAnswers_answersToInsert map_of_map)
qed

text \<open>
  C8, as amended. When every required question has an answer whose trimmed value is
  non-empty, the answers pass \<open>validateForm\<close>, and the stored answers of the assembled
  submission pass it again against the same questions.
\<close>

theorem nonblank_answers_roundtrip:
  assumes "\<forall>q\<in>set qs. is_required q \<longrightarrow>
             (case map_of answers (qid q) of None \<Rightarrow> False | Some v \<Rightarrow> trim v \<noteq> [])"
  shows "validateForm qs answers = (True, [])
         \<and> validateForm qs (storedAnswers (answersToInsert rid qs answers)) = (True, [])"
proof -
  have t0: "trim [] = []" by (simp add: trim_def)
  have a: "\<not> isMissing answers q" and b: "\<not> isMissing (storedAnswers (answersToInsert rid qs answers)) q"
    if "q \<in> set qs" "is_required q" for q
  proof -
    from assms that obtain v where v: "map_of answers (qid q) = Some v" "trim v \<noteq> []"
      by (auto split: option.splits)
    with t0 have "v \<noteq> []" by auto
    with v show "\<not> isMissing answers q" by (simp add: isMissing_def)
    from v have "map_of (storedAnswers (answersToInsert rid qs answers)) (qid q) = Some (trim v)"
      by (rule stored_lookup)
    with v(2) show "\<not> isMissing (storedAnswers (answersToInsert rid qs answers)) q"
      by (simp add: isMissing_def trim_idem)
  qed
  have "filter (isMissing answers) (filter is_required qs) = []"
    using a by (auto simp: filter_empty_conv)
  moreover have "filter (isMissing (storedAnswers (answersToInsert rid qs answers))) (filter is_required qs) = []"
    using b by (auto simp: filter_empty_conv)
  ultimately show ?thesis
    by (simp add: validateForm_def Let_def del: filter_filter)
qed

theorem nonblank_answers_roundtrip_witness:
  "validateForm [q_name, q_note, q_stars] [(''q1'', '' Ann ''), (''q3'', ''4'')] = (True, [])
   \<and> validateForm [q_name, q_note, q_stars]
        (storedAnswers (answersToInsert ''r1'' [q_name, q_note, q_stars] [(''q1'', '' Ann ''), (''q3'', ''4'')]))
       = (True, [])"
proof -
  have "\<forall>q\<in>set [q_name, q_note, q_stars]. is_required q \<longrightarrow>
          (case map_of [(''q1'', '' Ann ''), (''q3'', ''4'')] (qid q) of
             None \<Rightarrow> False | Some v \<Rightarrow> trim v \<noteq> [])"
    by code_simp
  then show ?thesis by (rule nonblank_answers_roundtrip)
qed

text \<open>
  A required rating question answered by one blank passes \<open>validateForm\<close>; the stored
  answer is the empty string, which does not pass.
\<close>

theorem roundtrip_counterexample:
  "validateForm [q_stars] [(''q3'', '' '')] = (True, [])
   \<and> validateForm [q_stars] (storedAnswers (answersToInsert ''r1'' [q_stars] [(''q3'', '' '')]))
       = (False, ''Please answer all required questions. Missing: Question 1'')"
  by code_simp

section \<open>Assembling a submission\<close>

lemma keepAnswer_iff:
  "keepAnswer qs (k, v) \<longleftrightarrow> v \<noteq> [] \<and> (ownerIsText qs k \<longrightarrow> trim v \<noteq> [])"
  by (simp add: keepAnswer_def ownerIsText_def split: option.splits)

text \<open>
  C2. A row is among the rows to insert exactly when it comes from an entry of the
  answers whose value is non-empty and, when the owning question has type text, whose
  trimmed value is non-empty too; the answer text of the row is the trimmed value. For
  the answers \<open>{q1: "  hi  ", q2: ""}\<close> to two text questions the rows are the single
  row of \<open>q1\<close> with the text \<open>hi\<close>.
\<close>

theorem answersToInsert_filter_rule:
  "(row \<in> set (answersToInsert rid qs answers) \<longleftrightarrow>
      (\<exists>k v. (k, v) \<in> set answers \<and> v \<noteq> [] \<and> (ownerIsText qs k \<longrightarrow> trim v \<noteq> [])
             \<and> row = \<lparr>response_id = rid, question_id = k, answer_text = trim v\<rparr>))
   \<and> answersToInsert rid [q_name, q_note] [(''q1'', ''  hi  ''), (''q2'', '''')]
       = [\<lparr>response_id = rid, question_id = ''q1'', answer_text = ''hi''\<rparr>]"
proof
  show "row \<in> set (answersToInsert rid qs answers) \<longleftrightarrow>
      (\<exists>k v. (k, v) \<in> set answers \<and> v \<noteq> [] \<and> (ownerIsText qs k \<longrightarrow> trim v \<noteq> [])
             \<and> row = \<lparr>response_id = rid, question_id = k, answer_text = trim v\<rparr>)"
    by (auto simp: answersToInsert_def keepAnswer_iff)
next
  have "filter (keepAnswer [q_name, q_note]) [(''q1'', ''  hi  ''), (''q2'', '''')] = [(''q1'', ''  hi  '')]"
    by code_simp
  moreover have "trim ''  hi  '' = ''hi''" by code_simp
  ultimately show "answersToInsert rid [q_name, q_note] [(''q1'', ''  hi  ''), (''q2'', '''')]
       = [\<lparr>response_id = rid, question_id = ''q1'', answer_text = ''hi''\<rparr>]"
    by (simp add: answersToInsert_def)
qed

theorem answersToInsert_filter_rule_witness:
  "\<lparr>response_id = ''r1'', question_id = ''q3'', answer_text = ''5''\<rparr>
     \<in> set (answersToInsert ''r1'' [q_name, q_stars] [(''q1'', ''   ''), (''q3'', '' 5'')])
   \<and> \<lparr>response_id = ''r1'', question_id = ''q1'', answer_text = ''''\<rparr>
     \<notin> set (answersToInsert ''r1'' [q_name, q_stars] [(''q1'', ''   ''), (''q3'', '' 5'')])"
proof -
  note r = answersToInsert_filter_rule[of _ "''r1''" "[q_name, q_stars]" "[(''q1'', ''   ''), (''q3'', '' 5'')]", THEN conjunct1]
  have o1: "ownerIsText [q_name, q_stars] ''q1''" by code_simp
  have o3: "\<not> ownerIsText [q_name, q_stars] ''q3''" by code_simp
  have t1: "trim ''   '' = []" by code_simp
  have t3: "trim '' 5'' = ''5''" by code_simp
  show ?thesis
    by (simp add: r o1 o3 t1 t3)
qed

text \<open>
  C10. An entry of the answers whose identifier belongs to no question of the list is
  kept whenever its value is non-empty, and its row carries the trimmed value.
\<close>

theorem unknown_question_kept:
  assumes "(k, v) \<in> set answers" "v \<noteq> []" "k \<notin> qid ` set qs"
  shows "\<lparr>response_id = rid, question_id = k, answer_text = trim v\<rparr>
           \<in> set (answersToInsert rid qs answers)"
proof -
  have "find (\<lambda>q. qid q = k) qs = None"
    using assms(3) by (auto simp: find_None_iff)
  with assms(2) have "keepAnswer qs (k, v)" by (simp add: keepAnswer_def)
  with assms(1) have "(k, v) \<in> set (filter (keepAnswer qs) answers)" by simp
  then show ?thesis unfolding answersToInsert_def by force
qed

theorem unknown_question_kept_witness:
  "(''zz'', '' x '') \<in> set [(''q1'', ''Ann''), (''zz'', '' x '')] \<and> '' x '' \<noteq> []
   \<and> ''zz'' \<notin> qid ` set [q_name, q_stars]
   \<and> \<lparr>response_id = ''r1'', question_id = ''zz'', answer_text = ''x''\<rparr>
       \<in> set (answersToInsert ''r1'' [q_name, q_stars] [(''q1'', ''Ann''), (''zz'', '' x '')])"
proof -
  have a: "(''zz'', '' x '') \<in> set [(''q1'', ''Ann''), (''zz'', '' x '')]" by simp
  have b: "'' x '' \<noteq> []" by simp
  have c: "''zz'' \<notin> qid ` set [q_name, q_stars]" by (simp add: q_name_def q_stars_def)
  have t: "trim '' x '' = ''x''" by code_simp
  show ?thesis using unknown_question_kept[OF a b c, of "''r1''"] a b c by (simp add: t)
qed

section \<open>Saving a form\<close>

text \<open>
  C9. On both pages the title is checked before the number of questions: a title that
  trims to the empty string gives the title error whatever the questions are, so the
  form with the empty title and no question fails with the title error.
\<close>

theorem title_checked_first:
  "(trim (title formData) = [] \<longrightarrow> createForm_validate formData = Some ''Form title is required'')
   \<and> (trim (ef_title form) = [] \<longrightarrow> editForm_validate form qs = Some ''Form title is required'')"
  by (simp add: createForm_validate_def editForm_validate_def)

theorem title_checked_first_witness:
  "createForm_validate \<lparr>fd_id = None, title = '''', description = '''', is_active = True, questions = []\<rparr>
     = Some ''Form title is required''
   \<and> editForm_validate \<lparr>ef_id = ''f1'', ef_title = '''', ef_description = '''', ef_is_active = True\<rparr> []
     = Some ''Form title is required''"
proof -
  have t: "trim '''' = []" by (simp add: trim_def)
  show ?thesis
    using title_checked_first[of "\<lparr>fd_id = None, title = '''', description = '''', is_active = True, questions = []\<rparr>"
       "\<lparr>ef_id = ''f1'', ef_title = '''', ef_description = '''', ef_is_active = True\<rparr>" "[]"]
    by (simp add: t)
qed

text \<open>
  C4. On the editing page the check counts the options as they are, blank ones too,
  while the rows it then inserts keep only the options that are non-empty after
  trimming: the question below has one such option, passes the check of the editing
  page, and is stored with that one option.
\<close>

theorem edit_accepts_blank_option:
  "length (filter (\<lambda>opt. trim opt \<noteq> []) (options q_choice)) = 1
   \<and> editForm_validate form_poll [q_choice] = None
   \<and> map qi_options (questionsToInsert ''f1'' [q_choice]) = [[''Yes'']]"
  by code_simp

text \<open>With the single option \<open>Yes\<close> and no blank one, the question passes on the
  creation page and fails on the editing page.\<close>

lemma one_option_create_and_edit:
  "createForm_validate \<lparr>fd_id = None, title = ''Poll'', description = '''', is_active = True,
                         questions = [q_choice_one]\<rparr> = None
   \<and> editForm_validate form_poll [q_choice\<lparr>options := [''Yes'']\<rparr>]
       = Some ''Question 1 must have at least 2 options''"
  by code_simp

section \<open>The export of the responses of one form\<close>

lemma replaceQuotes_concat:
  "replaceQuotes s = concat (map (\<lambda>c. if c = CHR 0x22 then [c, c] else [c]) s)"
  by (induction s) simp_all

lemma csvCells_data_row:
  "i < length responses \<Longrightarrow> csvCells f responses ! Suc i = csvRow f (responses ! i)"
  by (simp add: csvCells_def)

text \<open>
  C5, as amended. In the table that \<open>exportResponses\<close> writes, the cell of answer \<open>j\<close>
  of response \<open>i\<close> (row \<open>i + 1\<close> after the header row, column \<open>3 + j\<close> after the three
  cells of the response itself) is the answer text between two double quotes, with
  every double quote of the text doubled, whatever else the text contains. The answer
  \<open>He said "hi"\<close> becomes \<open>"He said ""hi"""\<close>.
\<close>

theorem answer_cells_quoted:
  "(i < length responses \<and> j < length (fr_answers (responses ! i)) \<longrightarrow>
      csvCells toLocaleString responses ! Suc i ! (3 + j)
        = [CHR 0x22]
          @ concat (map (\<lambda>c. if c = CHR 0x22 then [c, c] else [c])
                        (ra_answer_text (fr_answers (responses ! i) ! j)))
          @ [CHR 0x22])
   \<and> quoteAnswer [CHR ''H'', CHR ''e'', CHR '' '', CHR ''s'', CHR ''a'', CHR ''i'', CHR ''d'', CHR '' '',
                   CHR 0x22, CHR ''h'', CHR ''i'', CHR 0x22]
       = [CHR 0x22, CHR ''H'', CHR ''e'', CHR '' '', CHR ''s'', CHR ''a'', CHR ''i'', CHR ''d'', CHR '' '',
          CHR 0x22, CHR 0x22, CHR ''h'', CHR ''i'', CHR 0x22, CHR 0x22, CHR 0x22]"
proof (intro conjI impI)
  assume a: "i < length responses \<and> j < length (fr_answers (responses ! i))"
  then have "csvCells toLocaleString responses ! Suc i ! (3 + j)
               = quoteAnswer (ra_answer_text (fr_answers (responses ! i) ! j))"
    by (simp add: csvCells_data_row csvRow_def nth_append)
  then show "csvCells toLocaleString responses ! Suc i ! (3 + j)
        = [CHR 0x22]
          @ concat (map (\<lambda>c. if c = CHR 0x22 then [c, c] else [c])
                        (ra_answer_text (fr_answers (responses ! i) ! j)))
          @ [CHR 0x22]"
    by (simp add: quoteAnswer_def replaceQuotes_concat)
next
  show "quoteAnswer [CHR ''H'', CHR ''e'', CHR '' '', CHR ''s'', CHR ''a'', CHR ''i'', CHR ''d'', CHR '' '',
                   CHR 0x22, CHR ''h'', CHR ''i'', CHR 0x22]
       = [CHR 0x22, CHR ''H'', CHR ''e'', CHR '' '', CHR ''s'', CHR ''a'', CHR ''i'', CHR ''d'', CHR '' '',
          CHR 0x22, CHR 0x22, CHR ''h'', CHR ''i'', CHR 0x22, CHR 0x22, CHR 0x22]"
    by (simp add: quoteAnswer_def)
qed


theorem answer_cells_quoted_witness:
  "0 < length [resp_quote] \<and> 0 < length (fr_answers ([resp_quote] ! 0))
   \<and> csvCells (\<lambda>_. ''7/18/2025, 2:19:19 AM'') [resp_quote] ! Suc 0 ! (3 + 0)
       = ''\"He said \"\"hi\"\"\"''"
proof -
  have a: "0 < length [resp_quote] \<and> 0 < length (fr_answers ([resp_quote] ! 0))"
    by (simp add: resp_quote_def)
  have "csvCells (\<lambda>_. ''7/18/2025, 2:19:19 AM'') [resp_quote] ! Suc 0 ! (3 + 0)
          = [CHR 0x22]
            @ concat (map (\<lambda>c. if c = CHR 0x22 then [c, c] else [c])
                          (ra_answer_text (fr_answers ([resp_quote] ! 0) ! 0)))
            @ [CHR 0x22]"
    using answer_cells_quoted[of 0 "[resp_quote]" 0 "\<lambda>_. ''7/18/2025, 2:19:19 AM''"] a by blast
  also have "\<dots> = ''\"He said \"\"hi\"\"\"''"
    by (simp add: resp_quote_def)
  finally show ?thesis using a by blast
qed

text \<open>
  The cells of the header row and the identifier, date and address cells of a response
  are written as they are, without quotes.
\<close>

theorem every_cell_quoted_counterexample:
  "csvCells (\<lambda>_. ''7/18/2025, 2:19:19 AM'') [resp_quote]
     = [[''Response ID'', ''Submitted At'', ''IP Address'', ''Comment''],
        [''r1'', ''7/18/2025, 2:19:19 AM'', ''N/A'', ''\"He said \"\"hi\"\"\"'']]
   \<and> csvCells (\<lambda>_. ''7/18/2025, 2:19:19 AM'') [resp_quote] ! 1 ! 0 \<noteq> ''\"r1\"''"
  by (simp add: csvCells_def csvHeaders_def csvRow_def resp_quote_def quoteAnswer_def)

section \<open>The average rating\<close>

text \<open>
  C6. On the page of all responses the average is taken over every answer that reads
  as one digit from 1 to 5, whatever the type of its question: for one response with
  the text answer \<open>5\<close> and the rating \<open>1\<close> it is 3. On the page of one form, where the
  answers are filtered by the type of their question, the same response gives 1.
\<close>

theorem avgRatingAll_counts_text_answer:
  "ratingAnswersAll [transformResponse raw_mixed] = [5, 1]
   \<and> avgRatingAll [raw_mixed] = 3
   \<and> ratingAnswers [resp_mixed] = [1]
   \<and> avgRating [resp_mixed] = 1"
  by code_simp

text \<open>On the page of one form the rating answers \<open>3\<close>, \<open>5\<close>, \<open>bad\<close>, \<open>1\<close> give 3, no
  rating answer gives 0, and the mean is rounded to one decimal.\<close>

lemma avgRating_example:
  "avgRating [resp_ratings [''3'', ''5'', ''bad'', ''1'']] = 3 \<and> avgRating [] = 0
   \<and> avgRating [resp_ratings [''4'', ''5'', ''5'']] = 47 / 10"
  by code_simp

section \<open>The trend of the last seven days\<close>

lemma startsWith_iff: "startsWith s p \<longleftrightarrow> (\<exists>rest. s = p @ rest)"
proof
  assume "startsWith s p"
  then have "s = p @ drop (length p) s"
    unfolding startsWith_def by (metis append_take_drop_id)
  then show "\<exists>rest. s = p @ rest" ..
next
  assume "\<exists>rest. s = p @ rest"
  then show "startsWith s p" by (auto simp: startsWith_def)
qed

lemma length_last7Days: "length (last7Days tz now) = 7"
  by (simp add: last7Days_def)

text \<open>
  Whatever the dates are, \<open>trendData\<close> has seven entries, the count of an entry is the
  number of responses whose \<open>submitted_at\<close> string starts with the date of the entry,
  and the seven counts are 0 when no response starts with any of the dates or when
  there are no responses.
\<close>

lemma trendData_length_counts:
  "length (trendData tz now rs) = 7
   \<and> (\<forall>i<7. count (trendData tz now (Some l) ! i)
               = card {k. k < length l
                          \<and> (\<exists>rest. mr_submitted_at (l ! k) = date (trendData tz now (Some l) ! i) @ rest)})
   \<and> ((\<forall>r\<in>set l. \<forall>i<7. \<not> startsWith (mr_submitted_at r) (date (trendData tz now (Some l) ! i)))
        \<longrightarrow> map count (trendData tz now (Some l)) = replicate 7 0)
   \<and> map count (trendData tz now None) = replicate 7 0"
proof (intro conjI allI impI)
  show "length (trendData tz now rs) = 7"
    by (simp add: trendData_def length_last7Days)
next
  fix i :: nat assume i: "i < 7"
  then show "count (trendData tz now (Some l) ! i)
               = card {k. k < length l
                          \<and> (\<exists>rest. mr_submitted_at (l ! k) = date (trendData tz now (Some l) ! i) @ rest)}"
    by (simp add: trendData_def length_last7Days length_filter_conv_card startsWith_iff)
next
  assume none: "\<forall>r\<in>set l. \<forall>i<7. \<not> startsWith (mr_submitted_at r) (date (trendData tz now (Some l) ! i))"
  have "count (trendData tz now (Some l) ! i) = 0" if "i < 7" for i
  proof -
    from that have "count (trendData tz now (Some l) ! i)
        = length (filter (\<lambda>r. startsWith (mr_submitted_at r) (date (trendData tz now (Some l) ! i))) l)"
      by (simp add: trendData_def length_last7Days)
    also have "\<dots> = 0" using none that by (simp add: filter_empty_conv)
    finally show ?thesis .
  qed
  then show "map count (trendData tz now (Some l)) = replicate 7 0"
    by (intro nth_equalityI) (simp_all add: trendData_def length_last7Days)
next
  show "map count (trendData tz now None) = replicate 7 0"
    by (intro nth_equalityI) (simp_all add: trendData_def length_last7Days)
qed

text \<open>Some dates of the calendar, and the two instants of the zone of Berlin.\<close>

lemma calendar_examples:
  "civil_from_days 0 = (1970, 1, 1) \<and> civil_from_days (- 1) = (1969, 12, 31)
   \<and> civil_from_days 11016 = (2000, 2, 29) \<and> civil_from_days 19782 = (2024, 2, 29)
   \<and> days_from_civil 2025 10 26 = 20387 \<and> civil_from_days 20387 = (2025, 10, 26)
   \<and> toISOString 0 = ''1970-01-01T00:00:00.000Z''
   \<and> toISOString 1761440400000 = ''2025-10-26T01:00:00.000Z''
   \<and> toISOString 1761447600000 = ''2025-10-26T03:00:00.000Z''
   \<and> toISOString now_oct28 = ''2025-10-28T00:30:00.000Z''
   \<and> toISOString (LocalTime berlin_autumn_2025 now_oct28) = ''2025-10-28T01:30:00.000Z''"
  by code_simp

lemma upt_7: "[0..<7] = [0, 1, 2, 3, 4, 5, 6]"
  by code_simp

lemma isoDaysAgo_utc:
  "isoDaysAgo utc_zone now_oct28 0 = ''2025-10-28T00:30:00.000Z''
   \<and> isoDaysAgo utc_zone now_oct28 1 = ''2025-10-27T00:30:00.000Z''
   \<and> isoDaysAgo utc_zone now_oct28 2 = ''2025-10-26T00:30:00.000Z''
   \<and> isoDaysAgo utc_zone now_oct28 3 = ''2025-10-25T00:30:00.000Z''
   \<and> isoDaysAgo utc_zone now_oct28 4 = ''2025-10-24T00:30:00.000Z''
   \<and> isoDaysAgo utc_zone now_oct28 5 = ''2025-10-23T00:30:00.000Z''
   \<and> isoDaysAgo utc_zone now_oct28 6 = ''2025-10-22T00:30:00.000Z''"
  by code_simp

lemma last7Days_utc:
  "last7Days utc_zone now_oct28
     = [''2025-10-22'', ''2025-10-23'', ''2025-10-24'', ''2025-10-25'',
        ''2025-10-26'', ''2025-10-27'', ''2025-10-28'']"
  by (simp add: last7Days_def upt_7 isoDaysAgo_utc)

text \<open>Where the offset is always 0, the seven dates at that instant are the seven
  days up to 2025-10-28, and a response of 2025-10-26 is counted on its day.\<close>

lemma trend_utc_example:
  "map date (trendData utc_zone now_oct28 (Some [resp_oct26]))
     = [''2025-10-22'', ''2025-10-23'', ''2025-10-24'', ''2025-10-25'',
        ''2025-10-26'', ''2025-10-27'', ''2025-10-28'']
   \<and> map count (trendData utc_zone now_oct28 (Some [resp_oct26])) = [0, 0, 0, 0, 1, 0, 0]"
  by (simp add: trendData_def last7Days_utc startsWith_def resp_oct26_def)

text \<open>
  In Berlin at 01:30 on 2025-10-28 the local days two and more days back lie in summer
  time, where 01:30 local time is 23:30 UTC of the day before.
\<close>

lemma isoDaysAgo_berlin:
  "isoDaysAgo berlin_autumn_2025 now_oct28 0 = ''2025-10-28T00:30:00.000Z''
   \<and> isoDaysAgo berlin_autumn_2025 now_oct28 1 = ''2025-10-27T00:30:00.000Z''
   \<and> isoDaysAgo berlin_autumn_2025 now_oct28 2 = ''2025-10-25T23:30:00.000Z''
   \<and> isoDaysAgo berlin_autumn_2025 now_oct28 3 = ''2025-10-24T23:30:00.000Z''
   \<and> isoDaysAgo berlin_autumn_2025 now_oct28 4 = ''2025-10-23T23:30:00.000Z''
   \<and> isoDaysAgo berlin_autumn_2025 now_oct28 5 = ''2025-10-22T23:30:00.000Z''
   \<and> isoDaysAgo berlin_autumn_2025 now_oct28 6 = ''2025-10-21T23:30:00.000Z''"
  by code_simp

lemma last7Days_berlin:
  "last7Days berlin_autumn_2025 now_oct28
     = [''2025-10-21'', ''2025-10-22'', ''2025-10-23'', ''2025-10-24'',
        ''2025-10-25'', ''2025-10-27'', ''2025-10-28'']"
  by (simp add: last7Days_def upt_7 isoDaysAgo_berlin)

text \<open>
  C7. In Berlin at 01:30 on 2025-10-28, two days after the end of summer time, the
  seven dates of \<open>trendData\<close> are 2025-10-21 to 2025-10-25, 2025-10-27 and 2025-10-28:
  \<open>setDate\<close> steps back by local days and \<open>toISOString\<close> prints the UTC date. The
  day 2025-10-26 is missing from the seven days that end at the reference day, the
  window starts one day early, and a response submitted on 2025-10-26 is counted in no
  entry.
\<close>

theorem trend_skips_day_after_dst_change:
  "map date (trendData berlin_autumn_2025 now_oct28 (Some [resp_oct26]))
     = [''2025-10-21'', ''2025-10-22'', ''2025-10-23'', ''2025-10-24'',
        ''2025-10-25'', ''2025-10-27'', ''2025-10-28'']
   \<and> map count (trendData berlin_autumn_2025 now_oct28 (Some [resp_oct26])) = [0, 0, 0, 0, 0, 0, 0]"
  by (simp add: trendData_def last7Days_berlin startsWith_def resp_oct26_def)

end
